theory Spec2Isabelle
  imports Main "HOL-Library.Sublist"
begin

section \<open>Python strings\<close>

text \<open>
  A Python \<open>str\<close> is modelled as a \<open>string\<close>: the list of its code points, each
  below 256. Only the string operations that \<open>app.py\<close> calls are modelled.
\<close>

definition startswith :: "string \<Rightarrow> string \<Rightarrow> bool" where
  "startswith s p = prefix p s"

definition endswith :: "string \<Rightarrow> string \<Rightarrow> bool" where
  "endswith s p = suffix p s"

text \<open>\<open>str.isspace\<close> on one character: the white space of Unicode below 256.\<close>

definition py_isspace :: "char \<Rightarrow> bool" where
  "py_isspace c =
     (let n = (of_char c :: nat)
      in (9 \<le> n \<and> n \<le> 13) \<or> (28 \<le> n \<and> n \<le> 32) \<or> n = 133 \<or> n = 160)"

text \<open>\<open>s.strip()\<close>: white space removed at both ends.\<close>

definition py_strip :: "string \<Rightarrow> string" where
  "py_strip s = rev (dropWhile py_isspace (rev (dropWhile py_isspace s)))"

text \<open>\<open>s.split(c)\<close> for a separator of one character; the result is never empty.\<close>

fun py_split :: "char \<Rightarrow> string \<Rightarrow> string list" where
  "py_split c [] = [[]]"
| "py_split c (x # xs) =
     (if x = c then [] # py_split c xs
      else (case py_split c xs of
              [] \<Rightarrow> [[x]]
            | p # ps \<Rightarrow> (x # p) # ps))"

text \<open>\<open>sep.join(parts)\<close>.\<close>

fun py_join :: "string \<Rightarrow> string list \<Rightarrow> string" where
  "py_join sep [] = []"
| "py_join sep [p] = p"
| "py_join sep (p # q # ps) = p @ sep @ py_join sep (q # ps)"

text \<open>\<open>sub in s\<close>: \<open>sub\<close> occurs in \<open>s\<close> as a contiguous substring.\<close>

fun py_in :: "string \<Rightarrow> string \<Rightarrow> bool" where
  "py_in sub [] = (sub = [])"
| "py_in sub (x # xs) = (prefix sub (x # xs) \<or> py_in sub xs)"

text \<open>\<open>text[:n]\<close>: a negative \<open>n\<close> counts from the end.\<close>

definition py_slice_to :: "int \<Rightarrow> string \<Rightarrow> string" where
  "py_slice_to n s =
     (if 0 \<le> n then take (nat n) s else take (nat (int (length s) + n)) s)"

text \<open>\<open>str(n)\<close> for a natural number, in decimal.\<close>

fun py_str_nat :: "nat \<Rightarrow> string" where
  "py_str_nat n =
     (if n < 10 then [char_of (48 + n)]
      else py_str_nat (n div 10) @ [char_of (48 + n mod 10)])"

definition py_str :: "int \<Rightarrow> string" where
  "py_str i = (if i < 0 then CHR ''-'' # py_str_nat (nat (- i)) else py_str_nat (nat i))"

datatype error = KeyError string | IndexError

section \<open>Sanitizer\<close>

text \<open>
  \<open>sanitize_input\<close> (app.py, lines 17 to 37) on a \<open>str\<close> argument. The empty string is
  falsy and is returned as it is; any other text is cut to \<open>max_length\<close> characters and
  then handed to \<open>bleach.clean\<close> with the tags \<open>b, i, u, br, p, strong, em\<close>, no
  attributes and \<open>strip=True\<close>. \<open>bleach\<close> is a third-party library; that call is
  the parameter \<open>clean\<close>.
\<close>

definition sanitize_input :: "(string \<Rightarrow> string) \<Rightarrow> string \<Rightarrow> int \<Rightarrow> string" where
  "sanitize_input clean text max_length =
     (if text = [] then text else clean (py_slice_to max_length text))"

text \<open>The default \<open>max_length=5000\<close>, which every call site of \<open>app.py\<close> uses.\<close>

definition sanitize :: "(string \<Rightarrow> string) \<Rightarrow> string \<Rightarrow> string" where
  "sanitize clean text = sanitize_input clean text 5000"

text \<open>
  What \<open>bleach.clean\<close> does to text that holds no markup, as far as an ampersand goes
  (the library's documented behaviour, \<open>'an & entity'\<close> becomes \<open>'an &amp; entity'\<close>
  and \<open>'&amp;'\<close> stays): a bare \<open>&\<close> is written as the entity \<open>&amp;\<close>, an
  \<open>&\<close> that already starts \<open>&amp;\<close> is kept. Every other character is passed on,
  so this stands for the library only on text made of letters, digits, blanks, \<open>;\<close>
  and ampersands that are bare or start \<open>&amp;\<close>.
\<close>

fun bleach_clean_text :: "string \<Rightarrow> string" where
  "bleach_clean_text [] = []"
| "bleach_clean_text (c # cs) =
     (if c = CHR ''&'' \<and> take 4 cs \<noteq> ''amp;''
      then ''&amp;'' @ bleach_clean_text cs
      else c # bleach_clean_text cs)"

section \<open>Submitted forms\<close>

text \<open>
  \<open>request.form\<close> is a multi-dict: the submitted fields in order, a name possibly more
  than once. \<open>form.keys()\<close> gives each name once, in the order of first occurrence;
  \<open>form.get(key, default)\<close> gives the first value of the name; \<open>form[key]\<close> raises
  \<open>KeyError\<close> for a name that was not submitted.
\<close>

type_synonym form = "(string \<times> string) list"

fun first_occurrences :: "'a list \<Rightarrow> 'a list \<Rightarrow> 'a list" where
  "first_occurrences seen [] = []"
| "first_occurrences seen (x # xs) =
     (if x \<in> set seen then first_occurrences seen xs
      else x # first_occurrences (x # seen) xs)"

definition form_keys :: "form \<Rightarrow> string list" where
  "form_keys f = first_occurrences [] (map fst f)"

definition form_get :: "form \<Rightarrow> string \<Rightarrow> string \<Rightarrow> string" where
  "form_get f key dflt = (case map_of f key of None \<Rightarrow> dflt | Some v \<Rightarrow> v)"

definition form_item :: "form \<Rightarrow> string \<Rightarrow> error + string" where
  "form_item f key = (case map_of f key of None \<Rightarrow> Inl (KeyError key) | Some v \<Rightarrow> Inr v)"

section \<open>Nested-form decoder\<close>

text \<open>\<open>key.split('[')[1].split(']')[0]\<close>; an index out of range raises \<open>IndexError\<close>.\<close>

definition index_token :: "string \<Rightarrow> error + string" where
  "index_token key =
     (case py_split CHR ''['' key of
        _ # p # _ \<Rightarrow> (case py_split CHR '']'' p of q # _ \<Rightarrow> Inr q | [] \<Rightarrow> Inl IndexError)
      | _ \<Rightarrow> Inl IndexError)"

text \<open>The f-string \<open>f'{prefix}[{idx}][{field}]'\<close>.\<close>

definition field_key :: "string \<Rightarrow> string \<Rightarrow> string \<Rightarrow> string" where
  "field_key pre idx field = pre @ ''['' @ idx @ '']['' @ field @ '']''"

text \<open>
  The test of each loop: \<open>key.startswith(prefix + '[') and key.endswith('[' + anchor + ']')\<close>.
\<close>

definition is_anchor_key :: "string \<Rightarrow> string \<Rightarrow> string \<Rightarrow> bool" where
  "is_anchor_key pre anchor key =
     (startswith key (pre @ ''['') \<and> endswith key (''['' @ anchor @ '']''))"

text \<open>
  The loop that \<open>generate\<close> runs three times (lines 230 to 276) and \<open>edit_resume\<close> repeats
  word for word (lines 486 to 535): over \<open>form.keys()\<close>, for each key that passes the
  test the index token is cut out, the record is built from the fields of that token, and
  the record is appended when its required fields are there. The three loops differ in the
  prefix, the anchor field, the record and the test of the record.
\<close>

fun group_loop ::
  "string \<Rightarrow> string \<Rightarrow> (string \<Rightarrow> 'r) \<Rightarrow> ('r \<Rightarrow> bool) \<Rightarrow> string list \<Rightarrow> 'r list \<Rightarrow> error + 'r list"
where
  "group_loop pre anchor build keep [] acc = Inr acc"
| "group_loop pre anchor build keep (key # keys) acc =
     (if is_anchor_key pre anchor key
      then (case index_token key of
              Inl e \<Rightarrow> Inl e
            | Inr idx \<Rightarrow>
                (let r = build idx
                 in group_loop pre anchor build keep keys (if keep r then acc @ [r] else acc)))
      else group_loop pre anchor build keep keys acc)"

record experience =
  job_title :: string
  company :: string
  job_desc :: string

record project =
  p_name :: string
  p_description :: string
  p_link :: string

record certification =
  c_name :: string
  c_issuer :: string
  c_year :: string

definition experience_of :: "(string \<Rightarrow> string) \<Rightarrow> form \<Rightarrow> string \<Rightarrow> experience" where
  "experience_of clean f idx =
     \<lparr> job_title = sanitize clean (py_strip (form_get f (field_key ''experiences'' idx ''job_title'') [])),
       company = sanitize clean (py_strip (form_get f (field_key ''experiences'' idx ''company'') [])),
       job_desc = sanitize clean (py_strip (form_get f (field_key ''experiences'' idx ''job_desc'') [])) \<rparr>"

definition experience_kept :: "experience \<Rightarrow> bool" where
  "experience_kept e = (job_title e \<noteq> [] \<or> company e \<noteq> [])"

definition project_of :: "(string \<Rightarrow> string) \<Rightarrow> form \<Rightarrow> string \<Rightarrow> project" where
  "project_of clean f idx =
     \<lparr> p_name = sanitize clean (py_strip (form_get f (field_key ''projects'' idx ''name'') [])),
       p_description = sanitize clean (py_strip (form_get f (field_key ''projects'' idx ''description'') [])),
       p_link = py_strip (form_get f (field_key ''projects'' idx ''link'') []) \<rparr>"

definition project_kept :: "project \<Rightarrow> bool" where
  "project_kept p = (p_name p \<noteq> [])"

definition certification_of :: "(string \<Rightarrow> string) \<Rightarrow> form \<Rightarrow> string \<Rightarrow> certification" where
  "certification_of clean f idx =
     \<lparr> c_name = sanitize clean (py_strip (form_get f (field_key ''certifications'' idx ''name'') [])),
       c_issuer = sanitize clean (py_strip (form_get f (field_key ''certifications'' idx ''issuer'') [])),
       c_year = py_strip (form_get f (field_key ''certifications'' idx ''year'') []) \<rparr>"

definition certification_kept :: "certification \<Rightarrow> bool" where
  "certification_kept c = (c_name c \<noteq> [])"

definition decode_experiences :: "(string \<Rightarrow> string) \<Rightarrow> form \<Rightarrow> error + experience list" where
  "decode_experiences clean f =
     group_loop ''experiences'' ''job_title'' (experience_of clean f) experience_kept (form_keys f) []"

definition decode_projects :: "(string \<Rightarrow> string) \<Rightarrow> form \<Rightarrow> error + project list" where
  "decode_projects clean f =
     group_loop ''projects'' ''name'' (project_of clean f) project_kept (form_keys f) []"

definition decode_certifications :: "(string \<Rightarrow> string) \<Rightarrow> form \<Rightarrow> error + certification list" where
  "decode_certifications clean f =
     group_loop ''certifications'' ''name'' (certification_of clean f) certification_kept (form_keys f) []"

text \<open>
  The decoder as the specification words it (section 4.2): the index tokens found through
  the anchor field, each once, in the order in which they are met; for each of them the
  record of its fields, kept when its required fields are there.
\<close>

definition anchor_tokens :: "string \<Rightarrow> string \<Rightarrow> string list \<Rightarrow> string list" where
  "anchor_tokens pre anchor keys =
     concat (map (\<lambda>key. if is_anchor_key pre anchor key
                         then (case index_token key of Inr t \<Rightarrow> [t] | Inl _ \<Rightarrow> [])
                         else []) keys)"

definition spec_index_tokens :: "string \<Rightarrow> string \<Rightarrow> form \<Rightarrow> string list" where
  "spec_index_tokens pre anchor f = first_occurrences [] (anchor_tokens pre anchor (form_keys f))"

definition spec_decode ::
  "string \<Rightarrow> string \<Rightarrow> (string \<Rightarrow> 'r) \<Rightarrow> ('r \<Rightarrow> bool) \<Rightarrow> form \<Rightarrow> 'r list"
where
  "spec_decode pre anchor build keep f = filter keep (map build (spec_index_tokens pre anchor f))"

text \<open>
  A bracketed submission is well formed when each key that a loop picks up reads
  \<open>prefix[INDEX][anchor]\<close> with the index token that the loop cuts out of it, that is
  with an index token that holds no bracket.
\<close>

definition wellformed_key :: "string \<Rightarrow> string \<Rightarrow> string \<Rightarrow> bool" where
  "wellformed_key pre anchor key =
     (\<not> is_anchor_key pre anchor key \<or>
      (case index_token key of Inr t \<Rightarrow> key = field_key pre t anchor | Inl _ \<Rightarrow> False))"

definition wellformed_form :: "form \<Rightarrow> bool" where
  "wellformed_form f =
     list_all (\<lambda>key. wellformed_key ''experiences'' ''job_title'' key \<and>
                     wellformed_key ''projects'' ''name'' key \<and>
                     wellformed_key ''certifications'' ''name'' key) (form_keys f)"

definition bracket_free :: "string \<Rightarrow> bool" where
  "bracket_free s = (CHR ''['' \<notin> set s \<and> CHR '']'' \<notin> set s)"

text \<open>
  A group is anchored when every index token that occurs under its prefix also submits
  the anchor field, as a form does that posts all the inputs of each of its groups.
\<close>

definition anchored :: "string \<Rightarrow> string \<Rightarrow> form \<Rightarrow> bool" where
  "anchored pre anchor f =
     list_all (\<lambda>key. startswith key (pre @ ''['') \<longrightarrow>
                 (case index_token key of
                    Inr t \<Rightarrow> field_key pre t anchor \<in> set (form_keys f)
                  | Inl _ \<Rightarrow> False)) (form_keys f)"

section \<open>AI text service\<close>

text \<open>
  \<open>get_ai_response\<close> (lines 66 to 146). The environment variable and the network are
  inputs: the API key, and the outcome of the request of each attempt. Every outcome but
  a 200 with more than 10 characters of content leads to the next attempt.
\<close>

datatype http_outcome =
    Http200 string
  | Http200_malformed
  | Http429
  | Http_other
  | Timeout
  | Request_failed

fun attempts :: "(nat \<Rightarrow> http_outcome) \<Rightarrow> nat \<Rightarrow> nat \<Rightarrow> string option" where
  "attempts net attempt 0 = None"
| "attempts net attempt (Suc remaining) =
     (case net attempt of
        Http200 raw \<Rightarrow>
          (let content = py_strip raw
           in if content \<noteq> [] \<and> 10 < length content then Some content
              else attempts net (Suc attempt) remaining)
      | _ \<Rightarrow> attempts net (Suc attempt) remaining)"

definition get_ai_response :: "string option \<Rightarrow> (nat \<Rightarrow> http_outcome) \<Rightarrow> nat \<Rightarrow> string option" where
  "get_ai_response api_key net max_retries =
     (if api_key = None \<or> api_key = Some [] then None else attempts net 0 max_retries)"

text \<open>\<open>random.choice(xs)\<close>, with the draw of the generator as an input.\<close>

definition random_choice :: "nat \<Rightarrow> 'a list \<Rightarrow> 'a" where
  "random_choice draw xs = xs ! (draw mod length xs)"

text \<open>\<open>[s.strip() for s in skills.split(',') if s.strip()]\<close>.\<close>

definition split_skills :: "string \<Rightarrow> string list" where
  "split_skills skills = filter (\<lambda>s. s \<noteq> []) (map py_strip (py_split CHR '','' skills))"

definition skill_text :: "string list \<Rightarrow> string" where
  "skill_text skills_list =
     (case skills_list of
        a # b # c # _ \<Rightarrow> a @ '', '' @ b @ '', and '' @ c
      | [a, b] \<Rightarrow> a @ '' and '' @ b
      | [a] \<Rightarrow> a
      | [] \<Rightarrow> ''various technologies'')"

definition fallback_templates :: "string \<Rightarrow> string \<Rightarrow> string \<Rightarrow> string list" where
  "fallback_templates name profession skills =
     (let st = skill_text (split_skills skills)
      in [ ''I'm '' @ name @ '', a '' @ profession @ '' with expertise in '' @ st @
             ''. I'm passionate about creating impactful solutions and continuously learning new technologies.'',
           ''I'm a '' @ profession @ '' specializing in '' @ st @
             ''. I combine technical expertise with creative problem-solving to deliver high-quality results.'',
           ''As a '' @ profession @ '', I leverage '' @ st @
             '' to build innovative solutions. I'm committed to writing clean code and collaborating effectively with teams.'' ])"

definition generate_fallback_bio :: "nat \<Rightarrow> string \<Rightarrow> string \<Rightarrow> string \<Rightarrow> string" where
  "generate_fallback_bio draw name profession skills =
     random_choice draw (fallback_templates name profession skills)"

text \<open>\<open>bio[1:-1]\<close> when \<open>bio\<close> starts and ends with the quote \<open>q\<close>.\<close>

definition unquote :: "char \<Rightarrow> string \<Rightarrow> string" where
  "unquote q bio = (if startswith bio [q] \<and> endswith bio [q] then butlast (tl bio) else bio)"

definition generate_bio :: "string option \<Rightarrow> nat \<Rightarrow> string \<Rightarrow> string \<Rightarrow> string \<Rightarrow> string" where
  "generate_bio ai draw name profession skills =
     (case ai of
        Some bio \<Rightarrow>
          (if bio \<noteq> [] then unquote (CHR 0x27) (unquote (CHR 0x22) (py_strip bio))
           else generate_fallback_bio draw name profession skills)
      | None \<Rightarrow> generate_fallback_bio draw name profession skills)"

section \<open>Users, resumes, purchases\<close>

text \<open>
  The rows of \<open>models.py\<close>, which is not among the source files; the fields are those
  that \<open>app.py\<close> reads and writes. A column that holds \<open>json.dumps\<close> of a list, or
  \<open>None\<close>, is modelled as an optional list: \<open>Some xs\<close> stands for the encoding of
  \<open>xs\<close>.
\<close>

record user =
  uid :: nat
  tokens :: int
  plan :: string
  last_generated :: "nat option"
  last_token_reset :: "nat option"

record resume =
  r_id :: nat
  r_user_id :: nat
  r_name :: string
  r_profession :: string
  r_email :: string
  r_phone :: string
  r_linkedin :: string
  r_github :: string
  r_bio :: string
  r_skills :: string
  r_experiences :: "experience list option"
  r_degree :: string
  r_institute :: string
  r_grad_year :: string
  r_profile_pic_url :: "string option"
  r_template :: string
  r_projects :: "project list option"
  r_certifications :: "certification list option"

record purchase =
  pu_user_id :: nat
  amount :: int
  description :: string

text \<open>
  The database as one request sees it: the row of the logged-in user, the resumes of all
  users, the purchases, and the next primary key of a resume.
\<close>

record database =
  current_user :: user
  resumes :: "resume list"
  purchases :: "purchase list"
  next_resume_id :: nat

text \<open>A response: a redirect to an endpoint with its flash message, a page, or 404.\<close>

datatype response =
    Redirect string string
  | Rendered string
  | Not_found

text \<open>
  What a handler takes from outside the repository: \<open>bleach.clean\<close>, the method
  \<open>User.reset_tokens_if_needed\<close> of \<open>models.py\<close> (the specification gives neither its
  allotment nor its window), \<open>config.FREE_TEMPLATES\<close>, the API key and the network, the
  draw of \<open>random.choice\<close>, the clock, and the name under which an upload is stored
  (the time stamp and \<open>secure_filename\<close>).
\<close>

record env =
  clean :: "string \<Rightarrow> string"
  reset_tokens_if_needed :: "user \<Rightarrow> user"
  free_templates :: "string list"
  api_key :: "string option"
  network :: "nat \<Rightarrow> http_outcome"
  draw :: nat
  utcnow :: nat
  stored_name :: "string \<Rightarrow> string"

record upload =
  filename :: string
  file_size :: nat

record request =
  form :: form
  profile_pic :: "upload option"
  is_post :: bool
  duplicate :: bool

section \<open>Token and plan gate\<close>

text \<open>
  Modelled from the spec: the methods \<open>is_pro_user\<close>, \<open>is_ultimate_user\<close>,
  \<open>has_tokens\<close> and \<open>deduct_token\<close> of the class \<open>User\<close> are in \<open>models.py\<close>,
  which is missing. Section 4.4: \<open>hasTokens\<close> is true if unlimited or balance > 0;
  \<open>deductToken\<close> decrements the balance by 1 unless unlimited and never goes below 0;
  the balance is the unlimited sentinel for the plan ultimate.
\<close>

definition is_pro_user :: "user \<Rightarrow> bool" where
  "is_pro_user u = (plan u = ''pro'')"

definition is_ultimate_user :: "user \<Rightarrow> bool" where
  "is_ultimate_user u = (plan u = ''ultimate'')"

definition has_tokens :: "user \<Rightarrow> bool" where
  "has_tokens u = (is_ultimate_user u \<or> 0 < tokens u)"

definition deduct_token :: "user \<Rightarrow> user" where
  "deduct_token u =
     (if is_ultimate_user u then u
      else if 0 < tokens u then u\<lparr>tokens := tokens u - 1\<rparr>
      else u)"

section \<open>Uploads\<close>

text \<open>\<open>str.lower\<close> on code points below 256.\<close>

definition py_lower_char :: "char \<Rightarrow> char" where
  "py_lower_char c =
     (let n = (of_char c :: nat)
      in if (65 \<le> n \<and> n \<le> 90) \<or> (192 \<le> n \<and> n \<le> 222 \<and> n \<noteq> 215)
         then char_of (n + 32) else c)"

text \<open>
  \<open>pic.filename.rsplit('.', 1)[1].lower() if '.' in pic.filename else ''\<close>: the text
  after the last dot.
\<close>

definition file_ext :: "string \<Rightarrow> string" where
  "file_ext name =
     (if CHR ''.'' \<in> set name then map py_lower_char (last (py_split CHR ''.'' name)) else [])"

datatype picture = No_picture | Rejected string | Saved string

text \<open>
  Step 4 of \<open>generate\<close> (lines 187 to 215), the same in \<open>edit_resume\<close> (lines 447 to
  484): an upload with a file name must have an image extension and at most 5 MB.
\<close>

definition check_upload :: "env \<Rightarrow> upload option \<Rightarrow> picture" where
  "check_upload e pic =
     (case pic of
        None \<Rightarrow> No_picture
      | Some p \<Rightarrow>
          if filename p = [] then No_picture
          else if file_ext (filename p) \<notin> {''png'', ''jpg'', ''jpeg'', ''gif'', ''webp''}
          then Rejected ''Invalid file type. Please upload an image (PNG, JPG, JPEG, GIF, WEBP).''
          else if 5 * 1024 * 1024 < file_size p
          then Rejected ''File too large. Maximum size is 5MB.''
          else Saved (''/static/uploads/'' @ stored_name e (filename p)))"

definition pic_url_of :: "picture \<Rightarrow> string option" where
  "pic_url_of pic = (case pic of Saved url \<Rightarrow> Some url | _ \<Rightarrow> None)"

section \<open>Generation\<close>

definition bind_err :: "error + 'a \<Rightarrow> ('a \<Rightarrow> error + 'b) \<Rightarrow> error + 'b" where
  "bind_err m k = (case m of Inl e \<Rightarrow> Inl e | Inr x \<Rightarrow> k x)"

text \<open>\<open>json.dumps(xs) if xs else None\<close>.\<close>

definition json_or_none :: "'a list \<Rightarrow> 'a list option" where
  "json_or_none xs = (if xs = [] then None else Some xs)"

text \<open>
  Steps 5 to 9 of \<open>generate\<close> (lines 217 to 297): the bio, the three decoded lists and
  the row. \<open>form['name']\<close> and \<open>form['profession']\<close> raise \<open>KeyError\<close> when the field
  was not submitted.
\<close>

definition build_resume :: "env \<Rightarrow> form \<Rightarrow> string option \<Rightarrow> nat \<Rightarrow> nat \<Rightarrow> error + resume" where
  "build_resume e f pic_url owner new_id =
     (let skills = split_skills (form_get f ''skills'' []);
          bio_input = sanitize (clean e) (py_strip (form_get f ''bio'' []))
      in bind_err
           (if bio_input = []
            then bind_err (form_item f ''name'') (\<lambda>name.
                 bind_err (form_item f ''profession'') (\<lambda>profession.
                 Inr (generate_bio (get_ai_response (api_key e) (network e) 3) (draw e)
                        (sanitize (clean e) name) (sanitize (clean e) profession)
                        (py_join '', '' skills))))
            else Inr bio_input) (\<lambda>bio.
         bind_err (decode_experiences (clean e) f) (\<lambda>experiences.
         bind_err (decode_projects (clean e) f) (\<lambda>projects.
         bind_err (decode_certifications (clean e) f) (\<lambda>certifications.
         bind_err (form_item f ''name'') (\<lambda>name.
         bind_err (form_item f ''profession'') (\<lambda>profession.
         Inr \<lparr> r_id = new_id,
               r_user_id = owner,
               r_name = sanitize (clean e) name,
               r_profession = sanitize (clean e) profession,
               r_email = form_get f ''email'' [],
               r_phone = form_get f ''phone'' [],
               r_linkedin = form_get f ''linkedin'' [],
               r_github = form_get f ''github'' [],
               r_bio = bio,
               r_skills = py_join '','' skills,
               r_experiences = json_or_none experiences,
               r_degree = sanitize (clean e) (form_get f ''degree'' []),
               r_institute = sanitize (clean e) (form_get f ''institute'' []),
               r_grad_year = form_get f ''grad_year'' [],
               r_profile_pic_url = pic_url,
               r_template = form_get f ''template'' ''classic'',
               r_projects = json_or_none projects,
               r_certifications = json_or_none certifications \<rparr>)))))))"

text \<open>
  \<open>generate\<close> (lines 165 to 339). The refresh of step 1 is committed at once. The two
  gates return before anything else is written. An exception after that is caught, the
  session is rolled back to the last commit, and the user is sent back to the start page.
\<close>

definition generate :: "env \<Rightarrow> request \<Rightarrow> database \<Rightarrow> response \<times> database" where
  "generate e req db =
     (let user1 = reset_tokens_if_needed e (current_user db);
          db1 = db\<lparr>current_user := user1\<rparr>;
          f = form req;
          template = form_get f ''template'' ''classic'';
          is_premium = (template \<notin> set (free_templates e))
      in if is_premium \<and> \<not> (is_pro_user user1 \<or> is_ultimate_user user1)
         then (Redirect ''pricing'' ''This template is only available for Pro or Ultimate users.'', db1)
         else if \<not> has_tokens user1
         then (Redirect ''pricing''
                 ''You're out of tokens. Please buy more or wait for your daily reset.'', db1)
         else (case check_upload e (profile_pic req) of
                 Rejected msg \<Rightarrow> (Redirect ''start'' msg, db1)
               | pic \<Rightarrow>
                  (case build_resume e f (pic_url_of pic) (uid user1) (next_resume_id db1) of
                     Inl err \<Rightarrow>
                       (Redirect ''start'' ''Failed to generate resume. Please try again.'', db1)
                   | Inr resume \<Rightarrow>
                       (Rendered (''resume_'' @ template @ ''.html''),
                        db1\<lparr> resumes := resumes db1 @ [resume],
                             current_user := (deduct_token user1)\<lparr>last_generated := Some (utcnow e)\<rparr>,
                             next_resume_id := Suc (next_resume_id db1) \<rparr>))))"

section \<open>Resume record lifecycle\<close>

text \<open>The first row that satisfies \<open>P\<close> is replaced by \<open>new\<close>.\<close>

fun replace_first :: "('a \<Rightarrow> bool) \<Rightarrow> 'a \<Rightarrow> 'a list \<Rightarrow> 'a list" where
  "replace_first P new [] = []"
| "replace_first P new (r # rs) = (if P r then new # rs else r # replace_first P new rs)"

text \<open>
  \<open>delete_resume\<close> (lines 376 to 393): \<open>get_or_404\<close> by primary key, then the
  ownership check.
\<close>

definition delete_resume :: "nat \<Rightarrow> database \<Rightarrow> response \<times> database" where
  "delete_resume resume_id db =
     (case find (\<lambda>r. r_id r = resume_id) (resumes db) of
        None \<Rightarrow> (Not_found, db)
      | Some resume \<Rightarrow>
          if r_user_id resume \<noteq> uid (current_user db)
          then (Redirect ''start'' ''Unauthorized'', db)
          else (Redirect ''my_resumes'' ''Resume deleted successfully!'',
                db\<lparr>resumes := remove1 resume (resumes db)\<rparr>))"

text \<open>The query of \<open>edit_resume\<close>: \<open>filter_by(id=resume_id, user_id=current_user.id)\<close>.\<close>

definition owned_by :: "nat \<Rightarrow> nat \<Rightarrow> resume \<Rightarrow> bool" where
  "owned_by resume_id owner r = (r_id r = resume_id \<and> r_user_id r = owner)"

text \<open>The fields that a POST to \<open>edit_resume\<close> writes (lines 431 to 535).\<close>

definition edited ::
  "env \<Rightarrow> form \<Rightarrow> picture \<Rightarrow> experience list \<Rightarrow> project list \<Rightarrow> certification list \<Rightarrow>
   resume \<Rightarrow> resume"
where
  "edited e f pic experiences projects certifications original =
     original\<lparr> r_name := sanitize (clean e) (form_get f ''name'' []),
               r_profession := sanitize (clean e) (form_get f ''profession'' []),
               r_email := form_get f ''email'' [],
               r_phone := form_get f ''phone'' [],
               r_linkedin := form_get f ''linkedin'' [],
               r_github := form_get f ''github'' [],
               r_bio := sanitize (clean e) (form_get f ''bio'' []),
               r_skills := form_get f ''skills'' [],
               r_degree := sanitize (clean e) (form_get f ''degree'' []),
               r_institute := sanitize (clean e) (form_get f ''institute'' []),
               r_grad_year := form_get f ''grad_year'' [],
               r_template := form_get f ''template'' ''classic'',
               r_profile_pic_url :=
                 (case pic of Saved url \<Rightarrow> Some url | _ \<Rightarrow> r_profile_pic_url original),
               r_experiences := json_or_none experiences,
               r_projects := json_or_none projects,
               r_certifications := json_or_none certifications \<rparr>"

text \<open>
  \<open>edit_resume\<close> (lines 396 to 558). \<open>first_or_404\<close> raises inside the \<open>try\<close>, so a
  resume that is absent or belongs to someone else ends in the handler of the exception.
  A rejected upload returns before the commit, and nothing of the edit is stored.
\<close>

definition edit_resume :: "env \<Rightarrow> request \<Rightarrow> nat \<Rightarrow> database \<Rightarrow> response \<times> database" where
  "edit_resume e req resume_id db =
     (case find (owned_by resume_id (uid (current_user db))) (resumes db) of
        None \<Rightarrow> (Redirect ''my_resumes'' ''Failed to update resume. Please try again.'', db)
      | Some original \<Rightarrow>
          if duplicate req
          then (Redirect ''edit_resume'' ''Resume duplicated. You can now edit it.'',
                db\<lparr> resumes := resumes db @
                       [original\<lparr>r_id := next_resume_id db, r_user_id := uid (current_user db)\<rparr>],
                    next_resume_id := Suc (next_resume_id db) \<rparr>)
          else if is_post req
          then (case check_upload e (profile_pic req) of
                  Rejected msg \<Rightarrow> (Redirect ''edit_resume'' msg, db)
                | pic \<Rightarrow>
                   (case bind_err (decode_experiences (clean e) (form req)) (\<lambda>experiences.
                         bind_err (decode_projects (clean e) (form req)) (\<lambda>projects.
                         bind_err (decode_certifications (clean e) (form req)) (\<lambda>certifications.
                         Inr (edited e (form req) pic experiences projects certifications original))))
                    of
                      Inl err \<Rightarrow>
                        (Redirect ''my_resumes'' ''Failed to update resume. Please try again.'', db)
                    | Inr new \<Rightarrow>
                        (Redirect ''my_resumes'' ''Resume updated successfully!'',
                         db\<lparr>resumes :=
                              replace_first (owned_by resume_id (uid (current_user db))) new
                                (resumes db)\<rparr>)))
          else (Rendered ''edit_resume.html'', db))"

section \<open>Purchase and upgrade ledger\<close>

text \<open>\<open>price_map = {1: 50, 5: 100}\<close>.\<close>

definition price_map :: "int \<rightharpoonup> int" where
  "price_map = [1 \<mapsto> 50, 5 \<mapsto> 100]"

text \<open>\<open>buy_token\<close> (lines 561 to 576).\<close>

definition buy_token :: "int \<Rightarrow> database \<Rightarrow> response \<times> database" where
  "buy_token count db =
     (let amount = (case price_map count of None \<Rightarrow> 0 | Some a \<Rightarrow> a)
      in if amount = 0
         then (Redirect ''pricing'' ''Invalid token pack selected.'', db)
         else (Redirect ''pricing''
                 (py_str count @ '' token'' @ (if 1 < count then ''s'' else []) @
                  '' purchased successfully.''),
               db\<lparr> current_user := (current_user db)\<lparr>tokens := tokens (current_user db) + count\<rparr>,
                    purchases := purchases db @
                      [\<lparr> pu_user_id = uid (current_user db), amount = amount,
                         description = py_str count @ '' Token Pack'' \<rparr>] \<rparr>))"

text \<open>\<open>upgrade\<close> (lines 578 to 597).\<close>

definition upgrade :: "string \<Rightarrow> database \<Rightarrow> response \<times> database" where
  "upgrade new_plan db =
     (if new_plan = ''pro''
      then (Redirect ''my_resumes''
              ''Upgraded to Pro Pack. 15 tokens added + Premium templates unlocked.'',
            db\<lparr> current_user :=
                   (current_user db)\<lparr>tokens := tokens (current_user db) + 15, plan := ''pro''\<rparr>,
                 purchases := purchases db @
                   [\<lparr> pu_user_id = uid (current_user db), amount = 199,
                      description = ''Pro Pack'' \<rparr>] \<rparr>)
      else if new_plan = ''ultimate''
      then (Redirect ''my_resumes''
              ''Welcome to Ultimate Pack. Unlimited tokens + all templates unlocked.'',
            db\<lparr> current_user := (current_user db)\<lparr>tokens := 9999, plan := ''ultimate''\<rparr>,
                 purchases := purchases db @
                   [\<lparr> pu_user_id = uid (current_user db), amount = 499,
                      description = ''Ultimate Pack'' \<rparr>] \<rparr>)
      else (Redirect ''pricing'' ''Invalid upgrade option.'', db))"

section \<open>A sample request\<close>

text \<open>
  One user with two tokens on the free plan, a resume of another user and one of their
  own, and a submission with two experience groups (the second one blank), a project and
  a certification.
\<close>

definition sample_user :: user where
  "sample_user =
     \<lparr> uid = 1, tokens = 2, plan = ''free'', last_generated = None, last_token_reset = None \<rparr>"

definition sample_resume :: "nat \<Rightarrow> nat \<Rightarrow> resume" where
  "sample_resume i owner =
     \<lparr> r_id = i, r_user_id = owner, r_name = ''Grace'', r_profession = ''Admiral'',
       r_email = ''g@example.org'', r_phone = [], r_linkedin = [], r_github = [],
       r_bio = ''I write compilers.'', r_skills = ''COBOL'',
       r_experiences = Some [\<lparr> job_title = ''Officer'', company = ''Navy'', job_desc = [] \<rparr>],
       r_degree = ''PhD'', r_institute = ''Yale'', r_grad_year = ''1934'',
       r_profile_pic_url = None, r_template = ''classic'',
       r_projects = None, r_certifications = None \<rparr>"

definition sample_db :: database where
  "sample_db =
     \<lparr> current_user = sample_user,
       resumes = [sample_resume 7 2, sample_resume 8 1],
       purchases = [],
       next_resume_id = 9 \<rparr>"

definition sample_env :: env where
  "sample_env =
     \<lparr> clean = bleach_clean_text,
       reset_tokens_if_needed = (\<lambda>u. u),
       free_templates = [''classic'', ''modern''],
       api_key = None,
       network = (\<lambda>_. Timeout),
       draw = 0,
       utcnow = 100,
       stored_name = (\<lambda>n. ''20260101_000000_'' @ n) \<rparr>"

definition sample_form :: form where
  "sample_form =
     [ (''name'', ''Ada''), (''profession'', ''Engineer''), (''skills'', ''Python,Go''),
       (''experiences[0][job_title]'', '' Dev ''), (''experiences[0][company]'', ''Acme''),
       (''experiences[x1][job_title]'', []), (''experiences[x1][company]'', ''  ''),
       (''projects[0][name]'', ''Compiler''), (''projects[0][link]'', '' http://x.org/?a=1&b=2 ''),
       (''certifications[3][name]'', ''Cert''), (''certifications[3][year]'', ''R&D 2020'') ]"

definition sample_request :: "form \<Rightarrow> request" where
  "sample_request f = \<lparr> form = f, profile_pic = None, is_post = True, duplicate = False \<rparr>"

text \<open>A network on which every attempt is answered with the status 429.\<close>

definition rate_limited :: "nat \<Rightarrow> http_outcome" where
  "rate_limited attempt = Http429"


section \<open>The sanitizer and its length\<close>

lemma bleach_clean_text_ampersands:
  "bleach_clean_text (replicate n CHR ''&'') = concat (replicate n ''&amp;'')"
proof (induction n)
  case 0
  show ?case by simp
next
  case (Suc n)
  have "take 4 (replicate n CHR ''&'') \<noteq> ''amp;''"
    by (cases n) auto
  with Suc show ?case by simp
qed


lemma length_entities: "length (concat (replicate n ''&amp;'')) = 5 * n"
  by (induction n) simp_all


lemma sanitize_ampersands:
  "sanitize bleach_clean_text (replicate 5000 CHR ''&'') = concat (replicate 5000 ''&amp;'')"
proof -
  have "replicate 5000 CHR ''&'' \<noteq> []" by simp
  then show ?thesis
    by (simp add: sanitize_def sanitize_input_def py_slice_to_def bleach_clean_text_ampersands)
qed


text \<open>
  C3, as stated: the result of \<open>sanitize\<close> is never longer than \<open>maxLength\<close>. It fails:
  the text is cut first and cleaned afterwards, and the cleaner writes each bare
  ampersand as an entity of five characters. Eleven characters grow to fifteen, and with
  the default bound 5000 ampersands grow to 25000 characters.
\<close>

theorem sanitize_length_counterexample:
  "\<not> int (length (sanitize_input bleach_clean_text ''an & entity'' 11)) \<le> 11 \<and>
   \<not> length (sanitize bleach_clean_text (replicate 5000 CHR ''&'')) \<le> 5000"
proof
  show "\<not> int (length (sanitize_input bleach_clean_text ''an & entity'' 11)) \<le> 11"
    by (simp add: sanitize_input_def py_slice_to_def)
  show "\<not> length (sanitize bleach_clean_text (replicate 5000 CHR ''&'')) \<le> 5000"
    by (simp only: sanitize_ampersands length_entities)
qed

text \<open>
  C3, amended: for a bound that is not negative, \<open>sanitize\<close> hands the cleaner at most
  \<open>maxLength\<close> characters, a prefix of the text, and returns what the cleaner makes of
  them; the result is no longer than \<open>maxLength\<close> whenever the cleaner does not lengthen
  that prefix.
\<close>

theorem sanitize_input_cut_then_cleaned:
  assumes "0 \<le> n"
  shows "length (py_slice_to n text) \<le> nat n \<and> prefix (py_slice_to n text) text \<and>
         sanitize_input cl text n = (if text = [] then [] else cl (py_slice_to n text)) \<and>
         (length (cl (py_slice_to n text)) \<le> length (py_slice_to n text) \<longrightarrow>
            int (length (sanitize_input cl text n)) \<le> n)"
  using assms by (auto simp: sanitize_input_def py_slice_to_def take_is_prefix)

theorem sanitize_input_cut_then_cleaned_witness:
  "(0::int) \<le> 3 \<and> sanitize_input bleach_clean_text ''Python'' 3 = ''Pyt'' \<and>
   int (length (sanitize_input bleach_clean_text ''Python'' 3)) \<le> 3"
  using sanitize_input_cut_then_cleaned [of 3 "''Python''" bleach_clean_text]
  by (simp add: py_slice_to_def)




section \<open>Splitting keys\<close>


lemma py_split_nonempty: "py_split c s \<noteq> []"
  by (induction s) (auto split: list.splits)

lemma py_split_append:
  "c \<notin> set xs \<Longrightarrow> py_split c (xs @ c # ys) = xs # py_split c ys"
  by (induction xs) (auto split: list.splits)

lemma py_split_pieces:
  "p \<in> set (py_split c s) \<Longrightarrow> c \<notin> set p \<and> set p \<subseteq> set s"
proof (induction s arbitrary: p)
  case Nil
  then show ?case by simp
next
  case (Cons x xs)
  show ?case
  proof (cases "x = c")
    case True
    with Cons.prems have "p = [] \<or> p \<in> set (py_split c xs)" by simp
    with Cons.IH show ?thesis by auto
  next
    case False
    obtain q qs where q: "py_split c xs = q # qs"
      using py_split_nonempty [of c xs] by (cases "py_split c xs") auto
    with False Cons.prems have "p = x # q \<or> p \<in> set qs" by simp
    moreover have "c \<notin> set q \<and> set q \<subseteq> set xs" using Cons.IH [of q] q by simp
    moreover have "p \<in> set qs \<Longrightarrow> c \<notin> set p \<and> set p \<subseteq> set xs"
      using Cons.IH [of p] q by simp
    ultimately show ?thesis using False by auto
  qed
qed

lemma py_split_two: "c \<in> set s \<Longrightarrow> \<exists>p q ps. py_split c s = p # q # ps"
proof (induction s)
  case Nil
  then show ?case by simp
next
  case (Cons x xs)
  show ?case
  proof (cases "x = c")
    case True
    then show ?thesis using py_split_nonempty [of c xs] by (cases "py_split c xs") auto
  next
    case False
    with Cons.prems have "c \<in> set xs" by simp
    with Cons.IH obtain p q ps where "py_split c xs = p # q # ps" by blast
    with False show ?thesis by simp
  qed
qed

lemma index_token_total:
  assumes "is_anchor_key pre anchor key"
  shows "\<exists>t. index_token key = Inr t"
proof -
  from assms have "prefix (pre @ ''['') key"
    by (simp add: is_anchor_key_def startswith_def)
  then have "CHR ''['' \<in> set key" by (auto simp: prefix_def)
  then obtain p q ps where "py_split CHR ''['' key = p # q # ps"
    using py_split_two by blast
  then show ?thesis
    using py_split_nonempty [of "CHR '']''" q]
    by (cases "py_split CHR '']'' q") (auto simp: index_token_def)
qed

lemma index_token_bracket_free:
  assumes "index_token key = Inr t"
  shows "CHR ''['' \<notin> set t \<and> CHR '']'' \<notin> set t"
proof -
  from assms obtain a p ps qs where s: "py_split CHR ''['' key = a # p # ps"
    and t: "py_split CHR '']'' p = t # qs"
    by (auto simp: index_token_def split: list.splits)
  from s have "p \<in> set (py_split CHR ''['' key)" by simp
  then have "CHR ''['' \<notin> set p" using py_split_pieces by blast
  moreover from t have "t \<in> set (py_split CHR '']'' p)" by simp
  then have "CHR '']'' \<notin> set t \<and> set t \<subseteq> set p" using py_split_pieces by blast
  ultimately show ?thesis by auto
qed

lemma index_token_field_key:
  assumes "CHR ''['' \<notin> set pre" "CHR ''['' \<notin> set idx" "CHR '']'' \<notin> set idx"
  shows "index_token (field_key pre idx field) = Inr idx"
proof -
  have "py_split CHR ''['' (field_key pre idx field)
          = pre # py_split CHR ''['' ((idx @ '']'') @ CHR ''['' # field @ '']'')"
    using assms(1) py_split_append [of "CHR ''[''" pre] by (simp add: field_key_def)
  also have "py_split CHR ''['' ((idx @ '']'') @ CHR ''['' # field @ '']'')
          = (idx @ '']'') # py_split CHR ''['' (field @ '']'')"
    using assms(2) by (intro py_split_append) simp
  finally have "py_split CHR ''['' (field_key pre idx field)
          = pre # (idx @ '']'') # py_split CHR ''['' (field @ '']'')" .
  moreover have "py_split CHR '']'' (idx @ CHR '']'' # []) = idx # py_split CHR '']'' []"
    using assms(3) by (intro py_split_append)
  ultimately show ?thesis by (simp add: index_token_def)
qed

lemma is_anchor_key_field_key: "is_anchor_key pre anchor (field_key pre idx anchor)"
  by (simp add: is_anchor_key_def startswith_def endswith_def field_key_def prefix_def suffix_def)

section \<open>The loop over the keys\<close>

lemma first_occurrences_set: "set (first_occurrences seen xs) = set xs - set seen"
  by (induction seen xs rule: first_occurrences.induct) auto

lemma first_occurrences_distinct: "distinct (first_occurrences seen xs)"
  by (induction seen xs rule: first_occurrences.induct) (auto simp: first_occurrences_set)

lemma first_occurrences_id:
  "distinct xs \<Longrightarrow> set xs \<inter> set seen = {} \<Longrightarrow> first_occurrences seen xs = xs"
  by (induction seen xs rule: first_occurrences.induct) auto

lemma form_keys_distinct: "distinct (form_keys f)"
  by (simp add: form_keys_def first_occurrences_distinct)

lemma form_keys_set: "set (form_keys f) = fst ` set f"
  by (simp add: form_keys_def first_occurrences_set)

lemma anchor_tokens_Nil: "anchor_tokens pre anchor [] = []"
  by (simp add: anchor_tokens_def)

lemma anchor_tokens_Cons:
  "anchor_tokens pre anchor (key # keys) =
     (if is_anchor_key pre anchor key
      then (case index_token key of Inr t \<Rightarrow> [t] | Inl _ \<Rightarrow> [])
      else []) @ anchor_tokens pre anchor keys"
  by (simp add: anchor_tokens_def)

lemma anchor_tokens_mem:
  "t \<in> set (anchor_tokens pre anchor keys) \<longleftrightarrow>
     (\<exists>key \<in> set keys. is_anchor_key pre anchor key \<and> index_token key = Inr t)"
proof (induction keys)
  case Nil
  show ?case by (simp add: anchor_tokens_Nil)
next
  case (Cons key keys)
  show ?case
  proof (cases "is_anchor_key pre anchor key")
    case True
    then obtain u where u: "index_token key = Inr u"
      using index_token_total by blast
    with True Cons.IH show ?thesis
      by (auto simp: anchor_tokens_Cons)
  next
    case False
    with Cons.IH show ?thesis by (auto simp: anchor_tokens_Cons)
  qed
qed

lemma group_loop_result:
  "group_loop pre anchor build keep keys acc =
     Inr (acc @ filter keep (map build (anchor_tokens pre anchor keys)))"
proof (induction keys arbitrary: acc)
  case Nil
  show ?case by (simp add: anchor_tokens_Nil)
next
  case (Cons key keys)
  show ?case
  proof (cases "is_anchor_key pre anchor key")
    case True
    then obtain t where t: "index_token key = Inr t"
      using index_token_total by blast
    with True Cons.IH show ?thesis
      by (simp add: anchor_tokens_Cons Let_def)
  next
    case False
    with Cons.IH show ?thesis by (simp add: anchor_tokens_Cons)
  qed
qed

lemma wellformed_key_token:
  assumes "wellformed_key pre anchor key" "is_anchor_key pre anchor key" "index_token key = Inr t"
  shows "key = field_key pre t anchor"
  using assms by (simp add: wellformed_key_def)

lemma anchor_tokens_distinct:
  assumes "distinct keys" "list_all (wellformed_key pre anchor) keys"
  shows "distinct (anchor_tokens pre anchor keys)"
  using assms
proof (induction keys)
  case Nil
  show ?case by (simp add: anchor_tokens_Nil)
next
  case (Cons key keys)
  then have IH: "distinct (anchor_tokens pre anchor keys)" by simp
  show ?case
  proof (cases "is_anchor_key pre anchor key")
    case True
    then obtain t where t: "index_token key = Inr t"
      using index_token_total by blast
    from Cons.prems True t have key: "key = field_key pre t anchor"
      by (simp add: wellformed_key_def)
    have "t \<notin> set (anchor_tokens pre anchor keys)"
    proof
      assume "t \<in> set (anchor_tokens pre anchor keys)"
      then obtain k where k: "k \<in> set keys" "is_anchor_key pre anchor k" "index_token k = Inr t"
        using anchor_tokens_mem by blast
      with Cons.prems have "k = field_key pre t anchor"
        by (auto simp: list_all_iff wellformed_key_def)
      with key k(1) Cons.prems(1) show False by simp
    qed
    with True t IH show ?thesis by (simp add: anchor_tokens_Cons)
  next
    case False
    with IH show ?thesis by (simp add: anchor_tokens_Cons)
  qed
qed

lemma anchor_tokens_set:
  assumes "list_all (wellformed_key pre anchor) keys" "CHR ''['' \<notin> set pre"
  shows "set (anchor_tokens pre anchor keys) =
           {t. bracket_free t \<and> field_key pre t anchor \<in> set keys}"
proof (intro set_eqI iffI)
  fix t assume "t \<in> set (anchor_tokens pre anchor keys)"
  then obtain k where k: "k \<in> set keys" "is_anchor_key pre anchor k" "index_token k = Inr t"
    using anchor_tokens_mem by blast
  with assms(1) have "k = field_key pre t anchor"
    by (auto simp: list_all_iff wellformed_key_def)
  with k index_token_bracket_free [OF k(3)]
  show "t \<in> {t. bracket_free t \<and> field_key pre t anchor \<in> set keys}"
    by (simp add: bracket_free_def)
next
  fix t assume "t \<in> {t. bracket_free t \<and> field_key pre t anchor \<in> set keys}"
  then have bf: "bracket_free t" and mem: "field_key pre t anchor \<in> set keys" by simp_all
  from bf assms(2) have "index_token (field_key pre t anchor) = Inr t"
    by (simp add: bracket_free_def index_token_field_key)
  with mem is_anchor_key_field_key [of pre anchor t]
  show "t \<in> set (anchor_tokens pre anchor keys)"
    using anchor_tokens_mem by blast
qed

lemma spec_index_tokens_wellformed:
  assumes "list_all (wellformed_key pre anchor) (form_keys f)"
  shows "spec_index_tokens pre anchor f = anchor_tokens pre anchor (form_keys f)"
  unfolding spec_index_tokens_def
  using anchor_tokens_distinct [OF form_keys_distinct assms]
  by (intro first_occurrences_id) simp_all

lemma decode_wellformed:
  assumes "list_all (wellformed_key pre anchor) (form_keys f)"
  shows "group_loop pre anchor build keep (form_keys f) [] = Inr (spec_decode pre anchor build keep f)"
  by (simp add: group_loop_result spec_decode_def spec_index_tokens_wellformed [OF assms])

section \<open>The decoder emits one record per index token\<close>

lemma decode_experiences_result:
  "decode_experiences cl f =
     Inr (filter experience_kept (map (experience_of cl f)
            (anchor_tokens ''experiences'' ''job_title'' (form_keys f))))"
  by (simp add: decode_experiences_def group_loop_result)

lemma decode_projects_result:
  "decode_projects cl f =
     Inr (filter project_kept (map (project_of cl f)
            (anchor_tokens ''projects'' ''name'' (form_keys f))))"
  by (simp add: decode_projects_def group_loop_result)

lemma decode_certifications_result:
  "decode_certifications cl f =
     Inr (filter certification_kept (map (certification_of cl f)
            (anchor_tokens ''certifications'' ''name'' (form_keys f))))"
  by (simp add: decode_certifications_def group_loop_result)

lemma wellformed_form_groups:
  assumes "wellformed_form f"
  shows "list_all (wellformed_key ''experiences'' ''job_title'') (form_keys f)"
    and "list_all (wellformed_key ''projects'' ''name'') (form_keys f)"
    and "list_all (wellformed_key ''certifications'' ''name'') (form_keys f)"
  using assms by (simp_all add: wellformed_form_def list_all_iff)

lemma spec_index_tokens_distinct: "distinct (spec_index_tokens pre anchor f)"
  by (simp add: spec_index_tokens_def first_occurrences_distinct)

lemma spec_index_tokens_set:
  assumes "list_all (wellformed_key pre anchor) (form_keys f)" "CHR ''['' \<notin> set pre"
  shows "set (spec_index_tokens pre anchor f) =
           {t. bracket_free t \<and> field_key pre t anchor \<in> fst ` set f}"
  using anchor_tokens_set [OF assms]
  by (simp add: spec_index_tokens_wellformed [OF assms(1)] form_keys_set)

lemma spec_index_tokens_anchored:
  assumes "list_all (wellformed_key pre anchor) (form_keys f)" "CHR ''['' \<notin> set pre"
    and "anchored pre anchor f"
  shows "set (spec_index_tokens pre anchor f) =
           {t. bracket_free t \<and> (\<exists>field. field_key pre t field \<in> fst ` set f)}"
proof -
  have "field_key pre t anchor \<in> fst ` set f"
    if bf: "bracket_free t" and mem: "field_key pre t field \<in> fst ` set f" for t field
  proof -
    from mem have k: "field_key pre t field \<in> set (form_keys f)"
      by (simp add: form_keys_set)
    have s: "startswith (field_key pre t field) (pre @ ''['')"
      by (simp add: startswith_def field_key_def)
    from bf assms(2) have "index_token (field_key pre t field) = Inr t"
      by (simp add: bracket_free_def index_token_field_key)
    with assms(3) k s have "field_key pre t anchor \<in> set (form_keys f)"
      by (auto simp: anchored_def list_all_iff)
    then show ?thesis by (simp add: form_keys_set)
  qed
  then show ?thesis
    unfolding spec_index_tokens_set [OF assms(1,2)] by blast
qed

text \<open>
  C1: on a well-formed bracketed submission each of the three loops returns, and returns
  what the specification describes: the records of the distinct index tokens of its group,
  one for each token whose record passes the test of the group (job title or company not
  empty; name not empty), in the order of the tokens. The index tokens of a group are the
  bracket-free tokens \<open>t\<close> for which the anchor field \<open>prefix[t][anchor]\<close> was
  submitted; when the group is anchored these are all the bracket-free tokens that occur
  under the prefix. An empty submission gives no record.
\<close>

theorem decoder_one_record_per_index_token:
  assumes "wellformed_form f"
  shows "decode_experiences cl f =
           Inr (spec_decode ''experiences'' ''job_title'' (experience_of cl f) experience_kept f) \<and>
         decode_projects cl f =
           Inr (spec_decode ''projects'' ''name'' (project_of cl f) project_kept f) \<and>
         decode_certifications cl f =
           Inr (spec_decode ''certifications'' ''name'' (certification_of cl f) certification_kept f) \<and>
         distinct (spec_index_tokens ''experiences'' ''job_title'' f) \<and>
         distinct (spec_index_tokens ''projects'' ''name'' f) \<and>
         distinct (spec_index_tokens ''certifications'' ''name'' f) \<and>
         set (spec_index_tokens ''experiences'' ''job_title'' f) =
           {t. bracket_free t \<and> field_key ''experiences'' t ''job_title'' \<in> fst ` set f} \<and>
         set (spec_index_tokens ''projects'' ''name'' f) =
           {t. bracket_free t \<and> field_key ''projects'' t ''name'' \<in> fst ` set f} \<and>
         set (spec_index_tokens ''certifications'' ''name'' f) =
           {t. bracket_free t \<and> field_key ''certifications'' t ''name'' \<in> fst ` set f} \<and>
         (anchored ''experiences'' ''job_title'' f \<longrightarrow>
            set (spec_index_tokens ''experiences'' ''job_title'' f) =
              {t. bracket_free t \<and> (\<exists>field. field_key ''experiences'' t field \<in> fst ` set f)}) \<and>
         (anchored ''projects'' ''name'' f \<longrightarrow>
            set (spec_index_tokens ''projects'' ''name'' f) =
              {t. bracket_free t \<and> (\<exists>field. field_key ''projects'' t field \<in> fst ` set f)}) \<and>
         (anchored ''certifications'' ''name'' f \<longrightarrow>
            set (spec_index_tokens ''certifications'' ''name'' f) =
              {t. bracket_free t \<and> (\<exists>field. field_key ''certifications'' t field \<in> fst ` set f)}) \<and>
         decode_experiences cl [] = Inr [] \<and>
         decode_projects cl [] = Inr [] \<and>
         decode_certifications cl [] = Inr []"
proof -
  note wf = wellformed_form_groups [OF assms]
  have "decode_experiences cl f =
          Inr (spec_decode ''experiences'' ''job_title'' (experience_of cl f) experience_kept f)"
    unfolding decode_experiences_def by (rule decode_wellformed [OF wf(1)])
  moreover have "decode_projects cl f =
          Inr (spec_decode ''projects'' ''name'' (project_of cl f) project_kept f)"
    unfolding decode_projects_def by (rule decode_wellformed [OF wf(2)])
  moreover have "decode_certifications cl f =
          Inr (spec_decode ''certifications'' ''name'' (certification_of cl f) certification_kept f)"
    unfolding decode_certifications_def by (rule decode_wellformed [OF wf(3)])
  moreover have "set (spec_index_tokens ''experiences'' ''job_title'' f) =
          {t. bracket_free t \<and> field_key ''experiences'' t ''job_title'' \<in> fst ` set f}"
    by (rule spec_index_tokens_set [OF wf(1)]) simp
  moreover have "set (spec_index_tokens ''projects'' ''name'' f) =
          {t. bracket_free t \<and> field_key ''projects'' t ''name'' \<in> fst ` set f}"
    by (rule spec_index_tokens_set [OF wf(2)]) simp
  moreover have "set (spec_index_tokens ''certifications'' ''name'' f) =
          {t. bracket_free t \<and> field_key ''certifications'' t ''name'' \<in> fst ` set f}"
    by (rule spec_index_tokens_set [OF wf(3)]) simp
  moreover have "anchored ''experiences'' ''job_title'' f \<longrightarrow>
          set (spec_index_tokens ''experiences'' ''job_title'' f) =
            {t. bracket_free t \<and> (\<exists>field. field_key ''experiences'' t field \<in> fst ` set f)}"
    using spec_index_tokens_anchored [OF wf(1)] by simp
  moreover have "anchored ''projects'' ''name'' f \<longrightarrow>
          set (spec_index_tokens ''projects'' ''name'' f) =
            {t. bracket_free t \<and> (\<exists>field. field_key ''projects'' t field \<in> fst ` set f)}"
    using spec_index_tokens_anchored [OF wf(2)] by simp
  moreover have "anchored ''certifications'' ''name'' f \<longrightarrow>
          set (spec_index_tokens ''certifications'' ''name'' f) =
            {t. bracket_free t \<and> (\<exists>field. field_key ''certifications'' t field \<in> fst ` set f)}"
    using spec_index_tokens_anchored [OF wf(3)] by simp
  moreover have "decode_experiences cl [] = Inr []"
    by (simp add: decode_experiences_def form_keys_def)
  moreover have "decode_projects cl [] = Inr []"
    by (simp add: decode_projects_def form_keys_def)
  moreover have "decode_certifications cl [] = Inr []"
    by (simp add: decode_certifications_def form_keys_def)
  ultimately show ?thesis
    by (simp only: spec_index_tokens_distinct simp_thms)
qed

theorem decoder_one_record_per_index_token_witness:
  "wellformed_form sample_form \<and>
   anchored ''experiences'' ''job_title'' sample_form \<and>
   spec_index_tokens ''experiences'' ''job_title'' sample_form = [''0'', ''x1''] \<and>
   decode_experiences bleach_clean_text sample_form =
     Inr [\<lparr> job_title = ''Dev'', company = ''Acme'', job_desc = [] \<rparr>] \<and>
   decode_projects bleach_clean_text sample_form =
     Inr [\<lparr> p_name = ''Compiler'', p_description = [], p_link = ''http://x.org/?a=1&b=2'' \<rparr>] \<and>
   decode_certifications bleach_clean_text sample_form =
     Inr [\<lparr> c_name = ''Cert'', c_issuer = [], c_year = ''R&D 2020'' \<rparr>]"
proof -
  have wf: "wellformed_form sample_form" by code_simp
  have an: "anchored ''experiences'' ''job_title'' sample_form" by code_simp
  have t: "spec_index_tokens ''experiences'' ''job_title'' sample_form = [''0'', ''x1'']"
    by code_simp
  have e: "spec_decode ''experiences'' ''job_title'' (experience_of bleach_clean_text sample_form)
             experience_kept sample_form
           = [\<lparr> job_title = ''Dev'', company = ''Acme'', job_desc = [] \<rparr>]"
    by code_simp
  have p: "spec_decode ''projects'' ''name'' (project_of bleach_clean_text sample_form)
             project_kept sample_form
           = [\<lparr> p_name = ''Compiler'', p_description = [], p_link = ''http://x.org/?a=1&b=2'' \<rparr>]"
    by code_simp
  have c: "spec_decode ''certifications'' ''name'' (certification_of bleach_clean_text sample_form)
             certification_kept sample_form
           = [\<lparr> c_name = ''Cert'', c_issuer = [], c_year = ''R&D 2020'' \<rparr>]"
    by code_simp
  show ?thesis
    using decoder_one_record_per_index_token [OF wf, of bleach_clean_text] wf an t
    by (simp only: e p c simp_thms)
qed

text \<open>
  C10: whatever the cleaner does, the link of each project and the year of each
  certification that the decoder emits is the submitted value with the white space at its
  ends removed, and nothing else, while name, description and issuer are the stripped
  values sent through \<open>sanitize\<close>; both the row that \<open>generate\<close> builds and the row that a
  POST to \<open>edit_resume\<close> writes hold the lists of this decoder.
\<close>

theorem link_and_year_not_sanitized:
  "(\<exists>ps cs.
      decode_projects cl f = Inr ps \<and> decode_certifications cl f = Inr cs \<and>
      map p_link ps =
        map (\<lambda>t. py_strip (form_get f (field_key ''projects'' t ''link'') []))
          (filter (\<lambda>t. project_kept (project_of cl f t))
             (anchor_tokens ''projects'' ''name'' (form_keys f))) \<and>
      map c_year cs =
        map (\<lambda>t. py_strip (form_get f (field_key ''certifications'' t ''year'') []))
          (filter (\<lambda>t. certification_kept (certification_of cl f t))
             (anchor_tokens ''certifications'' ''name'' (form_keys f))) \<and>
      map p_name ps =
        map (\<lambda>t. sanitize cl (py_strip (form_get f (field_key ''projects'' t ''name'') [])))
          (filter (\<lambda>t. project_kept (project_of cl f t))
             (anchor_tokens ''projects'' ''name'' (form_keys f))) \<and>
      map p_description ps =
        map (\<lambda>t. sanitize cl (py_strip (form_get f (field_key ''projects'' t ''description'') [])))
          (filter (\<lambda>t. project_kept (project_of cl f t))
             (anchor_tokens ''projects'' ''name'' (form_keys f))) \<and>
      map c_name cs =
        map (\<lambda>t. sanitize cl (py_strip (form_get f (field_key ''certifications'' t ''name'') [])))
          (filter (\<lambda>t. certification_kept (certification_of cl f t))
             (anchor_tokens ''certifications'' ''name'' (form_keys f))) \<and>
      map c_issuer cs =
        map (\<lambda>t. sanitize cl (py_strip (form_get f (field_key ''certifications'' t ''issuer'') [])))
          (filter (\<lambda>t. certification_kept (certification_of cl f t))
             (anchor_tokens ''certifications'' ''name'' (form_keys f))) \<and>
      (\<forall>e pic owner new_id r. clean e = cl \<longrightarrow> build_resume e f pic owner new_id = Inr r \<longrightarrow>
           r_projects r = json_or_none ps \<and> r_certifications r = json_or_none cs) \<and>
      (\<forall>e pic es original. clean e = cl \<longrightarrow>
           r_projects (edited e f pic es ps cs original) = json_or_none ps \<and>
           r_certifications (edited e f pic es ps cs original) = json_or_none cs))"
proof -
  let ?ps = "filter project_kept (map (project_of cl f)
               (anchor_tokens ''projects'' ''name'' (form_keys f)))"
  let ?cs = "filter certification_kept (map (certification_of cl f)
               (anchor_tokens ''certifications'' ''name'' (form_keys f)))"
  have l: "map p_link ?ps =
        map (\<lambda>t. py_strip (form_get f (field_key ''projects'' t ''link'') []))
          (filter (\<lambda>t. project_kept (project_of cl f t))
             (anchor_tokens ''projects'' ''name'' (form_keys f)))"
    by (simp add: filter_map comp_def project_of_def)
  have y: "map c_year ?cs =
        map (\<lambda>t. py_strip (form_get f (field_key ''certifications'' t ''year'') []))
          (filter (\<lambda>t. certification_kept (certification_of cl f t))
             (anchor_tokens ''certifications'' ''name'' (form_keys f)))"
    by (simp add: filter_map comp_def certification_of_def)
  have o: "map p_name ?ps =
        map (\<lambda>t. sanitize cl (py_strip (form_get f (field_key ''projects'' t ''name'') [])))
          (filter (\<lambda>t. project_kept (project_of cl f t))
             (anchor_tokens ''projects'' ''name'' (form_keys f))) \<and>
      map p_description ?ps =
        map (\<lambda>t. sanitize cl (py_strip (form_get f (field_key ''projects'' t ''description'') [])))
          (filter (\<lambda>t. project_kept (project_of cl f t))
             (anchor_tokens ''projects'' ''name'' (form_keys f))) \<and>
      map c_name ?cs =
        map (\<lambda>t. sanitize cl (py_strip (form_get f (field_key ''certifications'' t ''name'') [])))
          (filter (\<lambda>t. certification_kept (certification_of cl f t))
             (anchor_tokens ''certifications'' ''name'' (form_keys f))) \<and>
      map c_issuer ?cs =
        map (\<lambda>t. sanitize cl (py_strip (form_get f (field_key ''certifications'' t ''issuer'') [])))
          (filter (\<lambda>t. certification_kept (certification_of cl f t))
             (anchor_tokens ''certifications'' ''name'' (form_keys f)))"
    by (simp add: filter_map comp_def project_of_def certification_of_def)
  have b: "\<forall>e pic owner new_id r. clean e = cl \<longrightarrow> build_resume e f pic owner new_id = Inr r \<longrightarrow>
           r_projects r = json_or_none ?ps \<and> r_certifications r = json_or_none ?cs"
    by (auto simp: build_resume_def bind_err_def Let_def decode_experiences_result
          decode_projects_result decode_certifications_result split: sum.splits if_splits)
  have e: "\<forall>e pic es original. clean e = cl \<longrightarrow>
           r_projects (edited e f pic es ?ps ?cs original) = json_or_none ?ps \<and>
           r_certifications (edited e f pic es ?ps ?cs original) = json_or_none ?cs"
    by (simp add: edited_def)
  show ?thesis
    using decode_projects_result [of cl f] decode_certifications_result [of cl f] l y o b e
    by blast
qed

theorem link_and_year_not_sanitized_witness:
  "clean sample_env = bleach_clean_text \<and>
   bleach_clean_text ''http://x.org/?a=1&b=2'' \<noteq> ''http://x.org/?a=1&b=2'' \<and>
   (\<exists>r. build_resume sample_env sample_form None 1 9 = Inr r \<and>
        r_projects r =
          Some [\<lparr> p_name = ''Compiler'', p_description = [], p_link = ''http://x.org/?a=1&b=2'' \<rparr>] \<and>
        r_certifications r =
          Some [\<lparr> c_name = ''Cert'', c_issuer = [], c_year = ''R&D 2020'' \<rparr>])"
proof -
  obtain ps cs where ps: "decode_projects bleach_clean_text sample_form = Inr ps"
    and cs: "decode_certifications bleach_clean_text sample_form = Inr cs"
    and built: "\<forall>e pic owner new_id r. clean e = bleach_clean_text \<longrightarrow>
           build_resume e sample_form pic owner new_id = Inr r \<longrightarrow>
           r_projects r = json_or_none ps \<and> r_certifications r = json_or_none cs"
    using link_and_year_not_sanitized [of bleach_clean_text sample_form] by blast
  have "decode_projects bleach_clean_text sample_form =
          Inr [\<lparr> p_name = ''Compiler'', p_description = [], p_link = ''http://x.org/?a=1&b=2'' \<rparr>]"
    by code_simp
  with ps have ps': "ps = [\<lparr> p_name = ''Compiler'', p_description = [], p_link = ''http://x.org/?a=1&b=2'' \<rparr>]"
    by simp
  have "decode_certifications bleach_clean_text sample_form =
          Inr [\<lparr> c_name = ''Cert'', c_issuer = [], c_year = ''R&D 2020'' \<rparr>]"
    by code_simp
  with cs have cs': "cs = [\<lparr> c_name = ''Cert'', c_issuer = [], c_year = ''R&D 2020'' \<rparr>]"
    by simp
  have cl: "clean sample_env = bleach_clean_text" by (simp add: sample_env_def)
  have "\<not> isl (build_resume sample_env sample_form None 1 9)" by code_simp
  then obtain r where r: "build_resume sample_env sample_form None 1 9 = Inr r"
    by (cases "build_resume sample_env sample_form None 1 9") auto
  from built cl r have "r_projects r = json_or_none ps \<and> r_certifications r = json_or_none cs"
    by blast
  then have "r_projects r =
          Some [\<lparr> p_name = ''Compiler'', p_description = [], p_link = ''http://x.org/?a=1&b=2'' \<rparr>] \<and>
        r_certifications r =
          Some [\<lparr> c_name = ''Cert'', c_issuer = [], c_year = ''R&D 2020'' \<rparr>]"
    by (simp add: ps' cs' json_or_none_def)
  moreover have "bleach_clean_text ''http://x.org/?a=1&b=2'' \<noteq> ''http://x.org/?a=1&b=2''"
    by simp
  ultimately show ?thesis using cl r by blast
qed

section \<open>Purchases and upgrades\<close>

text \<open>
  C7: a count other than 1 and 5 is rejected and the database stays as it is, so the
  balance is unchanged and no purchase is recorded; for the packs 1 and 5 the balance grows
  by the count and one purchase is appended, at 50 for one token and at 100 for five,
  while the resumes stay as they are.
\<close>

theorem buy_token_known_pack_or_rejected:
  "(count \<noteq> 1 \<and> count \<noteq> 5 \<longrightarrow>
      buy_token count db = (Redirect ''pricing'' ''Invalid token pack selected.'', db)) \<and>
   (count = 1 \<or> count = 5 \<longrightarrow>
      tokens (current_user (snd (buy_token count db))) = tokens (current_user db) + count \<and>
      purchases (snd (buy_token count db)) =
        purchases db @
          [\<lparr> pu_user_id = uid (current_user db),
             amount = (if count = 1 then 50 else 100),
             description = py_str count @ '' Token Pack'' \<rparr>] \<and>
      resumes (snd (buy_token count db)) = resumes db)"
  by (auto simp: buy_token_def price_map_def Let_def)

theorem buy_token_known_pack_or_rejected_witness:
  "buy_token 3 sample_db = (Redirect ''pricing'' ''Invalid token pack selected.'', sample_db) \<and>
   tokens (current_user sample_db) = 2 \<and>
   tokens (current_user (snd (buy_token 5 sample_db))) = 7 \<and>
   purchases (snd (buy_token 5 sample_db)) =
     [\<lparr> pu_user_id = 1, amount = 100, description = ''5 Token Pack'' \<rparr>]"
proof -
  have s: "py_str 5 = ''5''" by code_simp
  show ?thesis
    using buy_token_known_pack_or_rejected [of 3 sample_db]
      buy_token_known_pack_or_rejected [of 5 sample_db]
    by (simp add: s) (simp add: sample_db_def sample_user_def)
qed

lemma deduct_token_ultimate: "is_ultimate_user u \<Longrightarrow> (deduct_token ^^ n) u = u"
  by (induction n) (simp_all add: deduct_token_def)

text \<open>
  C6: after the upgrade to the plan ultimate the balance is the sentinel 9999 and one
  purchase at 499 is recorded; any number of calls of \<open>deduct_token\<close> leaves that user
  as it is; and \<open>deduct_token\<close> keeps an ultimate user with the balance 9999 an ultimate
  user with the balance 9999.
\<close>

theorem upgrade_ultimate_then_deduct_token:
  "tokens (current_user (snd (upgrade ''ultimate'' db))) = 9999 \<and>
   plan (current_user (snd (upgrade ''ultimate'' db))) = ''ultimate'' \<and>
   purchases (snd (upgrade ''ultimate'' db)) =
     purchases db @
       [\<lparr> pu_user_id = uid (current_user db), amount = 499, description = ''Ultimate Pack'' \<rparr>] \<and>
   (deduct_token ^^ n) (current_user (snd (upgrade ''ultimate'' db)))
     = current_user (snd (upgrade ''ultimate'' db)) \<and>
   tokens ((deduct_token ^^ n) (current_user (snd (upgrade ''ultimate'' db)))) = 9999 \<and>
   (is_ultimate_user u \<and> tokens u = 9999 \<longrightarrow>
      is_ultimate_user (deduct_token u) \<and> tokens (deduct_token u) = 9999)"
proof -
  have u: "is_ultimate_user (current_user (snd (upgrade ''ultimate'' db)))"
    by (simp add: upgrade_def is_ultimate_user_def)
  have t: "tokens (current_user (snd (upgrade ''ultimate'' db))) = 9999"
    by (simp add: upgrade_def)
  show ?thesis
    using deduct_token_ultimate [OF u, of n] t
    by (simp add: upgrade_def deduct_token_def)
qed

theorem upgrade_ultimate_then_deduct_token_witness:
  "tokens (current_user sample_db) = 2 \<and>
   tokens (current_user (snd (upgrade ''ultimate'' sample_db))) = 9999 \<and>
   is_ultimate_user (current_user (snd (upgrade ''ultimate'' sample_db))) \<and>
   tokens (deduct_token (current_user (snd (upgrade ''ultimate'' sample_db)))) = 9999 \<and>
   tokens ((deduct_token ^^ 3) (current_user (snd (upgrade ''ultimate'' sample_db)))) = 9999"
  using upgrade_ultimate_then_deduct_token
          [of sample_db 3 "current_user (snd (upgrade ''ultimate'' sample_db))"]
  by (simp add: sample_db_def sample_user_def upgrade_def is_ultimate_user_def)

section \<open>Deleting and editing\<close>

text \<open>
  C9: when the resume of the request exists and belongs to another user, \<open>delete_resume\<close>
  answers with the redirect that flashes \<open>Unauthorized\<close> and returns the database as it
  was: the row is still there and nothing else has changed.
\<close>

theorem delete_resume_of_other_user:
  assumes "find (\<lambda>r. r_id r = resume_id) (resumes db) = Some r"
    and "r_user_id r \<noteq> uid (current_user db)"
  shows "delete_resume resume_id db = (Redirect ''start'' ''Unauthorized'', db)"
  using assms by (simp add: delete_resume_def)

theorem delete_resume_of_other_user_witness:
  "find (\<lambda>r. r_id r = 7) (resumes sample_db) = Some (sample_resume 7 2) \<and>
   r_user_id (sample_resume 7 2) \<noteq> uid (current_user sample_db) \<and>
   delete_resume 7 sample_db = (Redirect ''start'' ''Unauthorized'', sample_db)"
proof -
  have f: "find (\<lambda>r. r_id r = 7) (resumes sample_db) = Some (sample_resume 7 2)"
    by (simp add: sample_db_def sample_resume_def)
  have o: "r_user_id (sample_resume 7 2) \<noteq> uid (current_user sample_db)"
    by (simp add: sample_db_def sample_resume_def sample_user_def)
  show ?thesis
    using delete_resume_of_other_user [OF f o] f o by simp
qed

lemma find_replace_first:
  "find P xs = Some x \<Longrightarrow> P new \<Longrightarrow> find P (replace_first P new xs) = Some new"
  by (induction xs) (auto split: if_splits)

lemma owned_by_edited:
  "owned_by i owner original \<Longrightarrow> owned_by i owner (edited e f pic es ps cs original)"
  by (simp add: owned_by_def edited_def)

lemma edit_resume_post:
  assumes "find (owned_by resume_id (uid (current_user db))) (resumes db) = Some original"
    and "is_post req" and "\<not> duplicate req"
    and "\<forall>msg. check_upload e (profile_pic req) \<noteq> Rejected msg"
  shows "edit_resume e req resume_id db =
           (Redirect ''my_resumes'' ''Resume updated successfully!'',
            db\<lparr>resumes :=
                 replace_first (owned_by resume_id (uid (current_user db)))
                   (edited e (form req) (check_upload e (profile_pic req))
                      (filter experience_kept (map (experience_of (clean e) (form req))
                         (anchor_tokens ''experiences'' ''job_title'' (form_keys (form req)))))
                      (filter project_kept (map (project_of (clean e) (form req))
                         (anchor_tokens ''projects'' ''name'' (form_keys (form req)))))
                      (filter certification_kept (map (certification_of (clean e) (form req))
                         (anchor_tokens ''certifications'' ''name'' (form_keys (form req)))))
                      original)
                   (resumes db)\<rparr>)"
  using assms
  by (cases "check_upload e (profile_pic req)")
     (simp_all add: edit_resume_def bind_err_def decode_experiences_result
        decode_projects_result decode_certifications_result)

text \<open>
  C8: a POST to \<open>edit_resume\<close> by the owner, with no upload that is rejected, is saved, and
  the row then holds the three lists that the decoder reads from this submission,
  whatever it held before: each column is \<open>Some\<close> of the decoded list, the encoding of
  that list, when the list is not empty, and \<open>None\<close> when it is empty. With no
  experience group in the submission the experiences of the row are \<open>None\<close>. The user
  and the purchases stay as they are.
\<close>

theorem edit_replaces_lists_wholesale:
  assumes "find (owned_by resume_id (uid (current_user db))) (resumes db) = Some original"
    and "is_post req" and "\<not> duplicate req"
    and "\<forall>msg. check_upload e (profile_pic req) \<noteq> Rejected msg"
  shows "\<exists>db' new es ps cs.
           edit_resume e req resume_id db =
             (Redirect ''my_resumes'' ''Resume updated successfully!'', db') \<and>
           find (owned_by resume_id (uid (current_user db'))) (resumes db') = Some new \<and>
           current_user db' = current_user db \<and> purchases db' = purchases db \<and>
           decode_experiences (clean e) (form req) = Inr es \<and>
           decode_projects (clean e) (form req) = Inr ps \<and>
           decode_certifications (clean e) (form req) = Inr cs \<and>
           r_experiences new = (if es = [] then None else Some es) \<and>
           r_projects new = (if ps = [] then None else Some ps) \<and>
           r_certifications new = (if cs = [] then None else Some cs) \<and>
           (anchor_tokens ''experiences'' ''job_title'' (form_keys (form req)) = [] \<longrightarrow>
              r_experiences new = None)"
proof -
  let ?es = "filter experience_kept (map (experience_of (clean e) (form req))
               (anchor_tokens ''experiences'' ''job_title'' (form_keys (form req))))"
  let ?ps = "filter project_kept (map (project_of (clean e) (form req))
               (anchor_tokens ''projects'' ''name'' (form_keys (form req))))"
  let ?cs = "filter certification_kept (map (certification_of (clean e) (form req))
               (anchor_tokens ''certifications'' ''name'' (form_keys (form req))))"
  let ?new = "edited e (form req) (check_upload e (profile_pic req)) ?es ?ps ?cs original"
  let ?db' = "db\<lparr>resumes := replace_first (owned_by resume_id (uid (current_user db))) ?new (resumes db)\<rparr>"
  from assms(1) have "owned_by resume_id (uid (current_user db)) original"
    by (auto simp: find_Some_iff)
  then have "owned_by resume_id (uid (current_user db)) ?new"
    by (rule owned_by_edited)
  with assms(1) have "find (owned_by resume_id (uid (current_user ?db'))) (resumes ?db') = Some ?new"
    by (simp add: find_replace_first)
  moreover have "edit_resume e req resume_id db =
      (Redirect ''my_resumes'' ''Resume updated successfully!'', ?db')"
    by (rule edit_resume_post [OF assms])
  moreover have "current_user ?db' = current_user db \<and> purchases ?db' = purchases db"
    by simp
  moreover have "r_experiences ?new = (if ?es = [] then None else Some ?es) \<and>
      r_projects ?new = (if ?ps = [] then None else Some ?ps) \<and>
      r_certifications ?new = (if ?cs = [] then None else Some ?cs)"
    by (simp add: edited_def json_or_none_def)
  moreover have "anchor_tokens ''experiences'' ''job_title'' (form_keys (form req)) = [] \<longrightarrow>
      r_experiences ?new = None"
    by (simp add: edited_def json_or_none_def)
  ultimately show ?thesis
    using decode_experiences_result [of "clean e" "form req"]
      decode_projects_result [of "clean e" "form req"]
      decode_certifications_result [of "clean e" "form req"]
    by blast
qed

theorem edit_replaces_lists_wholesale_witness:
  "r_experiences (sample_resume 8 1) =
     Some [\<lparr> job_title = ''Officer'', company = ''Navy'', job_desc = [] \<rparr>] \<and>
   r_projects (sample_resume 8 1) = None \<and>
   find (owned_by 8 (uid (current_user sample_db))) (resumes sample_db) = Some (sample_resume 8 1) \<and>
   (\<exists>db' new.
      edit_resume sample_env (sample_request sample_form) 8 sample_db =
        (Redirect ''my_resumes'' ''Resume updated successfully!'', db') \<and>
      find (owned_by 8 (uid (current_user db'))) (resumes db') = Some new \<and>
      r_experiences new = Some [\<lparr> job_title = ''Dev'', company = ''Acme'', job_desc = [] \<rparr>] \<and>
      r_projects new =
        Some [\<lparr> p_name = ''Compiler'', p_description = [], p_link = ''http://x.org/?a=1&b=2'' \<rparr>] \<and>
      r_certifications new =
        Some [\<lparr> c_name = ''Cert'', c_issuer = [], c_year = ''R&D 2020'' \<rparr>]) \<and>
   (\<exists>db' new.
      edit_resume sample_env (sample_request [(''name'', ''Grace Hopper'')]) 8 sample_db =
        (Redirect ''my_resumes'' ''Resume updated successfully!'', db') \<and>
      find (owned_by 8 (uid (current_user db'))) (resumes db') = Some new \<and>
      r_experiences new = None)"
proof -
  let ?full = "sample_request sample_form"
  let ?req = "sample_request [(''name'', ''Grace Hopper'')]"
  have f: "find (owned_by 8 (uid (current_user sample_db))) (resumes sample_db)
             = Some (sample_resume 8 1)"
    by (simp add: sample_db_def sample_resume_def sample_user_def owned_by_def)
  have p: "is_post ?req" and d: "\<not> duplicate ?req"
    and p': "is_post ?full" and d': "\<not> duplicate ?full"
    by (simp_all add: sample_request_def)
  have u: "\<forall>msg. check_upload sample_env (profile_pic ?req) \<noteq> Rejected msg"
    by (simp add: sample_request_def check_upload_def)
  have u': "\<forall>msg. check_upload sample_env (profile_pic ?full) \<noteq> Rejected msg"
    by (simp add: sample_request_def check_upload_def)
  have a: "anchor_tokens ''experiences'' ''job_title'' (form_keys (form ?req)) = []"
    by (simp add: sample_request_def form_keys_def anchor_tokens_def is_anchor_key_def
          startswith_def)
  have o: "r_experiences (sample_resume 8 1) =
     Some [\<lparr> job_title = ''Officer'', company = ''Navy'', job_desc = [] \<rparr>] \<and>
     r_projects (sample_resume 8 1) = None"
    by (simp add: sample_resume_def)
  have fm: "form ?full = sample_form" and cl: "clean sample_env = bleach_clean_text"
    by (simp_all add: sample_request_def sample_env_def)
  have es: "decode_experiences bleach_clean_text sample_form =
      Inr [\<lparr> job_title = ''Dev'', company = ''Acme'', job_desc = [] \<rparr>]"
    by code_simp
  have ps: "decode_projects bleach_clean_text sample_form =
      Inr [\<lparr> p_name = ''Compiler'', p_description = [], p_link = ''http://x.org/?a=1&b=2'' \<rparr>]"
    by code_simp
  have cs: "decode_certifications bleach_clean_text sample_form =
      Inr [\<lparr> c_name = ''Cert'', c_issuer = [], c_year = ''R&D 2020'' \<rparr>]"
    by code_simp
  have full: "\<exists>db' new.
      edit_resume sample_env ?full 8 sample_db =
        (Redirect ''my_resumes'' ''Resume updated successfully!'', db') \<and>
      find (owned_by 8 (uid (current_user db'))) (resumes db') = Some new \<and>
      r_experiences new = Some [\<lparr> job_title = ''Dev'', company = ''Acme'', job_desc = [] \<rparr>] \<and>
      r_projects new =
        Some [\<lparr> p_name = ''Compiler'', p_description = [], p_link = ''http://x.org/?a=1&b=2'' \<rparr>] \<and>
      r_certifications new =
        Some [\<lparr> c_name = ''Cert'', c_issuer = [], c_year = ''R&D 2020'' \<rparr>]"
    using edit_replaces_lists_wholesale [OF f p' d' u']
    by (auto simp: fm cl es ps cs)
  have none: "\<exists>db' new.
      edit_resume sample_env ?req 8 sample_db =
        (Redirect ''my_resumes'' ''Resume updated successfully!'', db') \<and>
      find (owned_by 8 (uid (current_user db'))) (resumes db') = Some new \<and>
      r_experiences new = None"
    using edit_replaces_lists_wholesale [OF f p d u] a by blast
  show ?thesis using o f full none by blast
qed

section \<open>Refused generation\<close>

text \<open>
  C2: let \<open>u\<close> be the user after the refresh of step 1. When the template of the
  request is not a free one and \<open>u\<close> is neither a pro nor an ultimate user, or when
  \<open>has_tokens\<close> fails for \<open>u\<close>, \<open>generate\<close> redirects to the pricing page and the
  database is the one that the refresh committed: no resume is added, no purchase, no
  token is deducted from the balance of \<open>u\<close>, and \<open>last_generated\<close> is not written;
  when the refresh had nothing to do, the database is unchanged.
\<close>

theorem generate_refused_mutates_nothing:
  assumes "u = reset_tokens_if_needed e (current_user db)"
    and "(form_get (form req) ''template'' ''classic'' \<notin> set (free_templates e) \<and>
          \<not> is_pro_user u \<and> \<not> is_ultimate_user u) \<or> \<not> has_tokens u"
  shows "(\<exists>msg. generate e req db = (Redirect ''pricing'' msg, db\<lparr>current_user := u\<rparr>)) \<and>
         resumes (snd (generate e req db)) = resumes db \<and>
         purchases (snd (generate e req db)) = purchases db \<and>
         next_resume_id (snd (generate e req db)) = next_resume_id db \<and>
         current_user (snd (generate e req db)) = u \<and>
         tokens (current_user (snd (generate e req db))) = tokens u \<and>
         last_generated (current_user (snd (generate e req db))) = last_generated u \<and>
         (u = current_user db \<longrightarrow> snd (generate e req db) = db)"
proof -
  from assms have "\<exists>msg. generate e req db = (Redirect ''pricing'' msg, db\<lparr>current_user := u\<rparr>)"
    by (auto simp: generate_def Let_def)
  then obtain msg where g: "generate e req db = (Redirect ''pricing'' msg, db\<lparr>current_user := u\<rparr>)"
    by blast
  then show ?thesis by auto
qed

theorem generate_refused_mutates_nothing_witness:
  "generate sample_env (sample_request ((''template'', ''gold'') # sample_form)) sample_db =
     (Redirect ''pricing'' ''This template is only available for Pro or Ultimate users.'', sample_db) \<and>
   generate sample_env (sample_request sample_form)
       (sample_db\<lparr>current_user := sample_user\<lparr>tokens := 0\<rparr>\<rparr>) =
     (Redirect ''pricing'' ''You're out of tokens. Please buy more or wait for your daily reset.'',
      sample_db\<lparr>current_user := sample_user\<lparr>tokens := 0\<rparr>\<rparr>)"
proof -
  let ?gold = "sample_request ((''template'', ''gold'') # sample_form)"
  let ?poor = "sample_db\<lparr>current_user := sample_user\<lparr>tokens := 0\<rparr>\<rparr>"
  have u1: "sample_user = reset_tokens_if_needed sample_env (current_user sample_db)"
    by (simp add: sample_env_def sample_db_def)
  have c1: "(form_get (form ?gold) ''template'' ''classic'' \<notin> set (free_templates sample_env) \<and>
          \<not> is_pro_user sample_user \<and> \<not> is_ultimate_user sample_user) \<or> \<not> has_tokens sample_user"
    by (simp add: sample_request_def form_get_def sample_env_def sample_user_def
          is_pro_user_def is_ultimate_user_def)
  have u2: "sample_user\<lparr>tokens := 0\<rparr> = reset_tokens_if_needed sample_env (current_user ?poor)"
    by (simp add: sample_env_def)
  have c2: "(form_get (form (sample_request sample_form)) ''template'' ''classic''
              \<notin> set (free_templates sample_env) \<and>
          \<not> is_pro_user (sample_user\<lparr>tokens := 0\<rparr>) \<and> \<not> is_ultimate_user (sample_user\<lparr>tokens := 0\<rparr>))
          \<or> \<not> has_tokens (sample_user\<lparr>tokens := 0\<rparr>)"
    by (simp add: has_tokens_def is_ultimate_user_def sample_user_def)
  have g1: "fst (generate sample_env ?gold sample_db) =
      Redirect ''pricing'' ''This template is only available for Pro or Ultimate users.''"
    by code_simp
  have g2: "fst (generate sample_env (sample_request sample_form) ?poor) =
      Redirect ''pricing'' ''You're out of tokens. Please buy more or wait for your daily reset.''"
    by code_simp
  have d: "sample_db\<lparr>current_user := sample_user\<rparr> = sample_db"
    by (simp add: sample_db_def)
  show ?thesis
    using generate_refused_mutates_nothing [OF u1 c1] generate_refused_mutates_nothing [OF u2 c2]
      g1 g2 d
    by auto
qed

section \<open>The fallback bio\<close>

lemma fallback_templates_sample:
  "length (fallback_templates ''Ada'' ''Engineer'' (py_join '', '' (split_skills ''Python,Go''))) = 3 \<and>
   list_all (\<lambda>bio. py_in ''I'm'' bio \<and> py_in ''Engineer'' bio \<and> py_in ''Python'' bio \<and> py_in ''Go'' bio)
     (fallback_templates ''Ada'' ''Engineer'' (py_join '', '' (split_skills ''Python,Go''))) \<and>
   map (py_in ''Ada'')
     (fallback_templates ''Ada'' ''Engineer'' (py_join '', '' (split_skills ''Python,Go'')))
     = [True, False, False]"
  by code_simp

text \<open>
  C5, as stated: with the AI service unavailable the bio for Ada, Engineer and the skills
  \<open>Python,Go\<close> is one fixed sentence that contains \<open>Ada\<close>. It fails: the sentence is
  picked by \<open>random.choice\<close> among three templates, two draws give two different bios,
  and the second template does not mention the name.
\<close>

theorem fallback_bio_counterexample:
  "generate_bio (get_ai_response (api_key sample_env) (network sample_env) 3) 0 ''Ada'' ''Engineer''
       (py_join '', '' (split_skills ''Python,Go''))
     \<noteq> generate_bio (get_ai_response (api_key sample_env) (network sample_env) 3) 1 ''Ada'' ''Engineer''
         (py_join '', '' (split_skills ''Python,Go'')) \<and>
   generate_bio (get_ai_response (api_key sample_env) (network sample_env) 3) 1 ''Ada'' ''Engineer''
       (py_join '', '' (split_skills ''Python,Go''))
     = ''I'm a Engineer specializing in Python and Go. I combine technical expertise with creative problem-solving to deliver high-quality results.'' \<and>
   \<not> py_in ''Ada''
       (generate_bio (get_ai_response (api_key sample_env) (network sample_env) 3) 1 ''Ada'' ''Engineer''
          (py_join '', '' (split_skills ''Python,Go''))) \<and>
   map_sum id r_bio
       (build_resume (sample_env\<lparr>draw := 1\<rparr>)
          [(''name'', ''Ada''), (''profession'', ''Engineer''), (''skills'', ''Python,Go'')] None 1 9)
     = Inr ''I'm a Engineer specializing in Python and Go. I combine technical expertise with creative problem-solving to deliver high-quality results.''"
  by code_simp

text \<open>
  C5, amended: when \<open>get_ai_response\<close> returns nothing, the bio for Ada, Engineer and
  the skills as \<open>generate\<close> joins them is one of the three templates, the one that the
  draw of \<open>random.choice\<close> picks; each of the three is written in the first person and
  contains \<open>Engineer\<close>, \<open>Python\<close> and \<open>Go\<close>; it contains \<open>Ada\<close> exactly when the
  first template is picked.
\<close>

theorem fallback_bio_one_of_three:
  assumes "get_ai_response key net 3 = None"
  shows "generate_bio (get_ai_response key net 3) d ''Ada'' ''Engineer''
             (py_join '', '' (split_skills ''Python,Go''))
           = fallback_templates ''Ada'' ''Engineer'' ''Python, Go'' ! (d mod 3) \<and>
         py_in ''I'm'' (generate_bio (get_ai_response key net 3) d ''Ada'' ''Engineer''
             (py_join '', '' (split_skills ''Python,Go''))) \<and>
         py_in ''Engineer'' (generate_bio (get_ai_response key net 3) d ''Ada'' ''Engineer''
             (py_join '', '' (split_skills ''Python,Go''))) \<and>
         py_in ''Python'' (generate_bio (get_ai_response key net 3) d ''Ada'' ''Engineer''
             (py_join '', '' (split_skills ''Python,Go''))) \<and>
         py_in ''Go'' (generate_bio (get_ai_response key net 3) d ''Ada'' ''Engineer''
             (py_join '', '' (split_skills ''Python,Go''))) \<and>
         (py_in ''Ada'' (generate_bio (get_ai_response key net 3) d ''Ada'' ''Engineer''
             (py_join '', '' (split_skills ''Python,Go''))) \<longleftrightarrow> d mod 3 = 0)"
proof -
  let ?skills = "py_join '', '' (split_skills ''Python,Go'')"
  let ?ts = "fallback_templates ''Ada'' ''Engineer'' ?skills"
  have sk: "?skills = ''Python, Go''" by code_simp
  have len: "length ?ts = 3" using fallback_templates_sample by blast
  have bio: "generate_bio (get_ai_response key net 3) d ''Ada'' ''Engineer'' ?skills = ?ts ! (d mod 3)"
    using assms len by (simp add: generate_bio_def generate_fallback_bio_def random_choice_def)
  have lt: "d mod 3 < length ?ts" using len by simp
  then have mem: "?ts ! (d mod 3) \<in> set ?ts" by (rule nth_mem)
  have "list_all (\<lambda>bio. py_in ''I'm'' bio \<and> py_in ''Engineer'' bio \<and> py_in ''Python'' bio \<and>
          py_in ''Go'' bio) ?ts"
    using fallback_templates_sample by blast
  with mem have all: "py_in ''I'm'' (?ts ! (d mod 3)) \<and> py_in ''Engineer'' (?ts ! (d mod 3)) \<and>
      py_in ''Python'' (?ts ! (d mod 3)) \<and> py_in ''Go'' (?ts ! (d mod 3))"
    by (simp add: list_all_iff)
  have "py_in ''Ada'' (?ts ! (d mod 3)) = map (py_in ''Ada'') ?ts ! (d mod 3)"
    using lt by simp
  also have "\<dots> = [True, False, False] ! (d mod 3)"
    using fallback_templates_sample by simp
  also have "\<dots> \<longleftrightarrow> d mod 3 = 0"
  proof -
    have "d mod 3 = 0 \<or> d mod 3 = 1 \<or> d mod 3 = 2" by arith
    then show ?thesis by auto
  qed
  finally have ada: "py_in ''Ada'' (?ts ! (d mod 3)) \<longleftrightarrow> d mod 3 = 0" .
  show ?thesis
    unfolding bio using all ada by (simp add: sk)
qed

theorem fallback_bio_one_of_three_witness:
  "get_ai_response (Some ''key'') rate_limited 3 = None \<and>
   generate_bio (get_ai_response (Some ''key'') rate_limited 3) 0 ''Ada'' ''Engineer''
       (py_join '', '' (split_skills ''Python,Go''))
     = ''I'm Ada, a Engineer with expertise in Python and Go. I'm passionate about creating impactful solutions and continuously learning new technologies.'' \<and>
   py_in ''Ada'' (generate_bio (get_ai_response (Some ''key'') rate_limited 3) 0 ''Ada'' ''Engineer''
       (py_join '', '' (split_skills ''Python,Go'')))"
proof -
  have n: "get_ai_response (Some ''key'') rate_limited 3 = None"
    by code_simp
  have t: "fallback_templates ''Ada'' ''Engineer'' ''Python, Go'' ! (0 mod 3)
     = ''I'm Ada, a Engineer with expertise in Python and Go. I'm passionate about creating impactful solutions and continuously learning new technologies.''"
    by code_simp
  show ?thesis
    using fallback_bio_one_of_three [OF n, of 0] n t by simp
qed

end
